theory Spec2Isabelle
  imports Main
begin

section \<open>Python values met by the script\<close>

text \<open>
  The script \<^verbatim>\<open>.github/scripts/manage_databricks_job.py\<close> handles only values produced
  by \<^verbatim>\<open>json.load\<close> and \<^verbatim>\<open>json.loads\<close>, and \<^verbatim>\<open>None\<close>. They are modelled
  by one datatype; \<open>JNull\<close> stands for both JSON \<^verbatim>\<open>null\<close> and Python \<^verbatim>\<open>None\<close>
  (\<^verbatim>\<open>json.loads\<close> maps the one to the other). A dictionary lists its items in insertion
  order, one item per key, as \<^verbatim>\<open>json.loads\<close> builds it. Strings are sequences of code
  points below 256. JSON numbers with a fraction or an exponent (Python floats) are outside
  the model.
\<close>

datatype json =
    JNull
  | JBool bool
  | JInt int
  | JStr string
  | JList "json list"
  | JObj "(string \<times> json) list"

text \<open>Truth value testing, as in \<^verbatim>\<open>if x:\<close> and \<^verbatim>\<open>not x\<close>.\<close>

fun truthy :: "json \<Rightarrow> bool" where
  "truthy JNull = False"
| "truthy (JBool b) = b"
| "truthy (JInt i) = (i \<noteq> 0)"
| "truthy (JStr s) = (s \<noteq> [])"
| "truthy (JList xs) = (xs \<noteq> [])"
| "truthy (JObj kv) = (kv \<noteq> [])"

text \<open>
  Python's \<^verbatim>\<open>==\<close> on these values: \<^verbatim>\<open>bool\<close> is a subclass of \<^verbatim>\<open>int\<close>, so
  \<^verbatim>\<open>True == 1\<close> and \<^verbatim>\<open>False == 0\<close>; lists compare element by element; dictionaries
  compare as mappings; values of different kinds are unequal.
\<close>

function py_eq :: "json \<Rightarrow> json \<Rightarrow> bool" where
  "py_eq JNull y = (y = JNull)"
| "py_eq (JBool a) y =
     (case y of JBool b \<Rightarrow> a = b | JInt j \<Rightarrow> (if a then 1 else 0) = j | _ \<Rightarrow> False)"
| "py_eq (JInt i) y =
     (case y of JBool b \<Rightarrow> i = (if b then 1 else 0) | JInt j \<Rightarrow> i = j | _ \<Rightarrow> False)"
| "py_eq (JStr s) y = (y = JStr s)"
| "py_eq (JList xs) y =
     (case y of JList ys \<Rightarrow> list_all2 py_eq xs ys | _ \<Rightarrow> False)"
| "py_eq (JObj a) y =
     (case y of
        JObj b \<Rightarrow>
          length a = length b \<and>
          list_all (\<lambda>k. case (map_of a k, map_of b k) of
                           (Some v, Some w) \<Rightarrow> py_eq v w
                         | _ \<Rightarrow> False) (map fst a)
      | _ \<Rightarrow> False)"
  by pat_completeness auto
termination
proof (relation "measure (\<lambda>(x, y). size x)", goal_cases)
  case 1
  show ?case by simp
next
  case (2 xs y ys v w)
  then show ?case by (simp add: size_list_estimation' less_Suc_eq_le)
next
  case (3 a y b k p v w)
  have "map_of kv q = Some u \<Longrightarrow> size u < Suc (size_list (size_prod (\<lambda>_. 0) size) kv)"
    for kv :: "(string \<times> json) list" and q u
    by (induction kv) (auto split: if_splits)
  with 3 show ?case by simp
qed

subsection \<open>Formatting: \<^verbatim>\<open>str\<close>, \<^verbatim>\<open>repr\<close> and \<^verbatim>\<open>rstrip\<close>\<close>

text \<open>
  An f-string field \<^verbatim>\<open>{x}\<close> is \<^verbatim>\<open>str(x)\<close>: a string is itself, every other value
  is its \<^verbatim>\<open>repr\<close>.
\<close>

function dec_nat :: "nat \<Rightarrow> string" where
  "dec_nat n =
     (if n < 10 then [''0123456789'' ! n]
      else dec_nat (n div 10) @ [''0123456789'' ! (n mod 10)])"
  by pat_completeness auto
termination
  by (relation "measure id") auto

declare dec_nat.simps [simp del]

definition str_int :: "int \<Rightarrow> string" where
  "str_int i = (if i < 0 then CHR ''-'' # dec_nat (nat (- i)) else dec_nat (nat i))"

definition hex2 :: "nat \<Rightarrow> string" where
  "hex2 n = [''0123456789abcdef'' ! (n div 16), ''0123456789abcdef'' ! (n mod 16)]"

definition repr_char :: "char \<Rightarrow> char \<Rightarrow> string" where
  "repr_char q c =
     (let n = (of_char c :: nat) in
      if c = q \<or> c = CHR 0x5C then [CHR 0x5C, c]
      else if c = CHR 0x09 then [CHR 0x5C, CHR ''t'']
      else if c = CHR 0x0A then [CHR 0x5C, CHR ''n'']
      else if c = CHR 0x0D then [CHR 0x5C, CHR ''r'']
      else if n < 32 \<or> n = 127 \<or> (128 \<le> n \<and> n \<le> 160) \<or> n = 173
        then [CHR 0x5C, CHR ''x''] @ hex2 n
      else [c])"

definition repr_str :: "string \<Rightarrow> string" where
  "repr_str s =
     (let q = (if CHR 0x27 \<in> set s \<and> CHR 0x22 \<notin> set s then CHR 0x22 else CHR 0x27)
      in q # concat (map (repr_char q) s) @ [q])"

fun join_comma :: "string list \<Rightarrow> string" where
  "join_comma [] = []"
| "join_comma [x] = x"
| "join_comma (x # y # zs) = x @ '', '' @ join_comma (y # zs)"

fun py_repr :: "json \<Rightarrow> string" where
  "py_repr JNull = ''None''"
| "py_repr (JBool b) = (if b then ''True'' else ''False'')"
| "py_repr (JInt i) = str_int i"
| "py_repr (JStr s) = repr_str s"
| "py_repr (JList xs) = ''['' @ join_comma (map py_repr xs) @ '']''"
| "py_repr (JObj kv) =
     ''{'' @ join_comma (map (\<lambda>(k, v). repr_str k @ '': '' @ py_repr v) kv) @ ''}''"

fun py_str :: "json \<Rightarrow> string" where
  "py_str (JStr s) = s"
| "py_str v = py_repr v"

text \<open>\<^verbatim>\<open>s.rstrip("/")\<close>: every trailing slash is removed.\<close>

definition rstrip_slash :: "string \<Rightarrow> string" where
  "rstrip_slash s = rev (dropWhile (\<lambda>c. c = CHR ''/'') (rev s))"

section \<open>The world of the script\<close>

text \<open>
  Text that the script hands to \<^verbatim>\<open>json.load\<close>/\<^verbatim>\<open>json.loads\<close> (a file's content, or
  a command's standard output after \<^verbatim>\<open>.strip()\<close>) is modelled by what the decoder makes
  of it: \<open>Blank\<close> is the empty text, \<open>Garbage\<close> a non-empty text that the decoder
  rejects, \<open>Json v\<close> a text that decodes to \<open>v\<close>.
\<close>

datatype pytext = Blank | Garbage | Json json

datatype exn = JSONDecodeError | AttributeError | TypeError | FileNotFoundError

text \<open>
  How a piece of code ends: by returning a value, by \<^verbatim>\<open>sys.exit(n)\<close> (the exception
  \<^verbatim>\<open>SystemExit\<close>, which derives from \<^verbatim>\<open>BaseException\<close> and not from
  \<^verbatim>\<open>Exception\<close>), or by raising an exception that derives from \<^verbatim>\<open>Exception\<close>.
\<close>

datatype 'a outcome = Return 'a | Exit int | Raise exn

text \<open>
  The command strings of the script, one constructor for each format string:
  \<^item> \<open>JobsConfigure\<close>: \<^verbatim>\<open>databricks jobs configure --version=2.1\<close>
  \<^item> \<open>JobsList\<close>: \<^verbatim>\<open>databricks jobs list --output JSON\<close>
  \<^item> \<open>JobsCreate p\<close>: \<^verbatim>\<open>databricks jobs create --json-file "{p}"\<close>
  \<^item> \<open>JobsReset i p\<close>: \<^verbatim>\<open>databricks jobs reset --job-id {i} --json-file "{p}"\<close>
  \<^item> \<open>JobsRunNow i\<close>: \<^verbatim>\<open>databricks jobs run-now --job-id {i}\<close>
\<close>

datatype command =
    JobsConfigure
  | JobsList
  | JobsCreate string
  | JobsReset json string
  | JobsRunNow json

text \<open>
  What \<^verbatim>\<open>subprocess.run\<close> reports for a command: the exit status, the standard output
  (stripped) and the standard error. The command-line tool is external: its answers are a
  parameter of the model.
\<close>

record completed =
  returncode :: int
  stdout :: pytext
  stderr :: string

type_synonym bridge = "command \<Rightarrow> completed"

text \<open>The lines the script prints, one constructor for each \<^verbatim>\<open>print\<close> statement.\<close>

datatype msg =
    MCommandFailed command
  | MError "string option"
  | MLoaded string
  | MConfigNotFound string
  | MInvalidJSON
  | MWarnCheck exn
  | MCreating
  | MCreated json
  | MCreatedNoId
  | MUpdating json
  | MUpdated json
  | MNameNotFound
  | MManaging json
  | MExists json
  | MSkipping
  | MNotExists
  | MCredentialsMissing
  | MConfiguring
  | MConfigured
  | MWarnConfigure
  | MRule
  | MRuleAfterBlank
  | MTitle
  | MJobURL string
  | MTriggering
  | MRunTriggered json
  | MRunURL string
  | MRunTriggeredNoId
  | MCompleted

text \<open>
  The state the script changes: the files it reads, writes and removes, the commands it
  has issued, and the lines it has printed.
\<close>

record state =
  files :: "string \<rightharpoonup> pytext"
  calls :: "command list"
  out :: "msg list"

type_synonym 'a prog = "state \<Rightarrow> 'a outcome \<times> state"

definition return :: "'a \<Rightarrow> 'a prog" where
  "return x st = (Return x, st)"

definition exit :: "int \<Rightarrow> 'a prog" where
  "exit n st = (Exit n, st)"

definition lift :: "exn + 'a \<Rightarrow> 'a prog" where
  "lift r st = (case r of Inl e \<Rightarrow> (Raise e, st) | Inr x \<Rightarrow> (Return x, st))"

definition bind :: "'a prog \<Rightarrow> ('a \<Rightarrow> 'b prog) \<Rightarrow> 'b prog" where
  "bind m f st =
     (case m st of
        (Return x, st') \<Rightarrow> f x st'
      | (Exit n, st') \<Rightarrow> (Exit n, st')
      | (Raise e, st') \<Rightarrow> (Raise e, st'))"

text \<open>\<^verbatim>\<open>try: m except E as e: h\<close> for the exception classes \<open>E\<close> below \<^verbatim>\<open>Exception\<close>.\<close>

definition try_except :: "'a prog \<Rightarrow> (exn \<Rightarrow> bool) \<Rightarrow> (exn \<Rightarrow> 'a prog) \<Rightarrow> 'a prog" where
  "try_except m E h st =
     (case m st of
        (Raise e, st') \<Rightarrow> (if E e then h e st' else (Raise e, st'))
      | r \<Rightarrow> r)"

text \<open>\<^verbatim>\<open>try: m except: h\<close>, which also catches \<^verbatim>\<open>SystemExit\<close>.\<close>

definition try_except_all :: "'a prog \<Rightarrow> 'a prog \<Rightarrow> 'a prog" where
  "try_except_all m h st =
     (case m st of
        (Return x, st') \<Rightarrow> (Return x, st')
      | (Exit n, st') \<Rightarrow> h st'
      | (Raise e, st') \<Rightarrow> h st')"

text \<open>\<^verbatim>\<open>try: m finally: c\<close>, for a clean-up \<open>c\<close> that does not raise.\<close>

definition try_finally :: "'a prog \<Rightarrow> (state \<Rightarrow> state) \<Rightarrow> 'a prog" where
  "try_finally m c st = (case m st of (r, st') \<Rightarrow> (r, c st'))"

definition print :: "msg \<Rightarrow> unit prog" where
  "print m st = (Return (), st\<lparr>out := out st @ [m]\<rparr>)"

subsection \<open>Operations on values that can raise\<close>

text \<open>\<^verbatim>\<open>x.get(k, d)\<close>: only a dictionary has the method.\<close>

fun py_get :: "json \<Rightarrow> string \<Rightarrow> json \<Rightarrow> exn + json" where
  "py_get (JObj kv) k d = Inr (case map_of kv k of None \<Rightarrow> d | Some v \<Rightarrow> v)"
| "py_get _ k d = Inl AttributeError"

text \<open>
  \<^verbatim>\<open>for x in v\<close>: a list yields its elements, a dictionary its keys, a string its
  characters; nothing else is iterable.
\<close>

fun py_iter :: "json \<Rightarrow> exn + json list" where
  "py_iter (JList xs) = Inr xs"
| "py_iter (JObj kv) = Inr (map (\<lambda>(k, v). JStr k) kv)"
| "py_iter (JStr s) = Inr (map (\<lambda>c. JStr [c]) s)"
| "py_iter _ = Inl TypeError"

text \<open>
  \<^verbatim>\<open>json.loads(s)\<close> for the value \<open>s\<close> that \<open>run_command\<close> returned, which is
  \<^verbatim>\<open>None\<close> when the output was not captured.
\<close>

fun json_loads :: "pytext option \<Rightarrow> exn + json" where
  "json_loads None = Inl TypeError"
| "json_loads (Some Blank) = Inl JSONDecodeError"
| "json_loads (Some Garbage) = Inl JSONDecodeError"
| "json_loads (Some (Json v)) = Inr v"

text \<open>Truth value of what \<open>run_command\<close> returned: \<^verbatim>\<open>None\<close> and \<^verbatim>\<open>""\<close> are false.\<close>

fun truthy_text :: "pytext option \<Rightarrow> bool" where
  "truthy_text None = False"
| "truthy_text (Some Blank) = False"
| "truthy_text (Some _) = True"

section \<open>The functions of the script\<close>

text \<open>
  \<open>run_command\<close>: \<^verbatim>\<open>subprocess.run(..., check=True)\<close> raises
  \<^verbatim>\<open>CalledProcessError\<close> on a non-zero exit status; the handler prints two lines and
  calls \<^verbatim>\<open>sys.exit(1)\<close>. Without capture the error's \<^verbatim>\<open>stderr\<close> is \<^verbatim>\<open>None\<close>.
\<close>

definition run_command :: "bridge \<Rightarrow> command \<Rightarrow> bool \<Rightarrow> pytext option prog" where
  "run_command B cmd capture_output st =
     (let result = B cmd;
          st1 = st\<lparr>calls := calls st @ [cmd]\<rparr>
      in if returncode result = 0
         then return (if capture_output then Some (stdout result) else None) st1
         else bind (print (MCommandFailed cmd)) (\<lambda>_.
              bind (print (MError (if capture_output then Some (stderr result) else None))) (\<lambda>_.
              exit 1)) st1)"

definition load_job_config :: "string \<Rightarrow> json prog" where
  "load_job_config config_path st =
     (case files st config_path of
        None \<Rightarrow> bind (print (MConfigNotFound config_path)) (\<lambda>_. exit 1) st
      | Some t \<Rightarrow>
          (case json_loads (Some t) of
             Inl e \<Rightarrow> bind (print MInvalidJSON) (\<lambda>_. exit 1) st
           | Inr config \<Rightarrow> bind (print (MLoaded config_path)) (\<lambda>_. return config) st))"

text \<open>The \<^verbatim>\<open>for job in ...\<close> loop of \<open>get_existing_job_id\<close>.\<close>

fun find_job :: "json \<Rightarrow> json list \<Rightarrow> exn + json" where
  "find_job job_name [] = Inr JNull"
| "find_job job_name (job # rest) =
     (case py_get job ''settings'' (JObj []) of
        Inl e \<Rightarrow> Inl e
      | Inr settings \<Rightarrow>
          (case py_get settings ''name'' JNull of
             Inl e \<Rightarrow> Inl e
           | Inr n \<Rightarrow>
               if py_eq n job_name then py_get job ''job_id'' JNull
               else find_job job_name rest))"

definition get_existing_job_id :: "bridge \<Rightarrow> json \<Rightarrow> json prog" where
  "get_existing_job_id B job_name =
     try_except
       (bind (run_command B JobsList True) (\<lambda>result.
        bind (lift (if truthy_text result then json_loads result
                    else Inr (JObj [(''jobs'', JList [])]))) (\<lambda>jobs.
        bind (lift (py_get jobs ''jobs'' (JList []))) (\<lambda>js.
        bind (lift (py_iter js)) (\<lambda>jl.
        lift (find_job job_name jl))))))
       (\<lambda>e. True)
       (\<lambda>e. bind (print (MWarnCheck e)) (\<lambda>_. return JNull))"

definition create_job :: "bridge \<Rightarrow> string \<Rightarrow> json prog" where
  "create_job B config_path =
     bind (print MCreating) (\<lambda>_.
     bind (run_command B (JobsCreate config_path) True) (\<lambda>output.
     try_except
       (bind (lift (json_loads output)) (\<lambda>result.
        bind (lift (py_get result ''job_id'' JNull)) (\<lambda>job_id.
        bind (print (MCreated job_id)) (\<lambda>_.
        return job_id))))
       (\<lambda>e. e = JSONDecodeError)
       (\<lambda>e. bind (print MCreatedNoId) (\<lambda>_. return JNull))))"

definition temp_file :: string where
  "temp_file = ''temp_job_config.json''"

text \<open>\<^verbatim>\<open>json.dump(config, f)\<close> writes a text that decodes to \<open>config\<close>.\<close>

definition write_json :: "string \<Rightarrow> json \<Rightarrow> unit prog" where
  "write_json path v st = (Return (), st\<lparr>files := (files st)(path \<mapsto> Json v)\<rparr>)"

text \<open>\<^verbatim>\<open>if os.path.exists(p): os.remove(p)\<close>\<close>

definition remove_if_exists :: "string \<Rightarrow> state \<Rightarrow> state" where
  "remove_if_exists path st =
     (if files st path \<noteq> None then st\<lparr>files := (files st)(path := None)\<rparr> else st)"

definition update_job :: "bridge \<Rightarrow> json \<Rightarrow> json \<Rightarrow> json prog" where
  "update_job B job_id config =
     bind (print (MUpdating job_id)) (\<lambda>_.
     bind (write_json temp_file config) (\<lambda>_.
     bind (try_finally
             (bind (run_command B (JobsReset job_id temp_file) False) (\<lambda>_.
              print (MUpdated job_id)))
             (remove_if_exists temp_file)) (\<lambda>_.
     return job_id)))"

definition manage_job :: "bridge \<Rightarrow> string \<Rightarrow> bool \<Rightarrow> json prog" where
  "manage_job B config_path force_update =
     bind (load_job_config config_path) (\<lambda>config.
     bind (lift (py_get config ''name'' JNull)) (\<lambda>job_name.
     if \<not> truthy job_name then bind (print MNameNotFound) (\<lambda>_. exit 1)
     else
       bind (print (MManaging job_name)) (\<lambda>_.
       bind (get_existing_job_id B job_name) (\<lambda>existing_job_id.
       if truthy existing_job_id then
         bind (print (MExists existing_job_id)) (\<lambda>_.
         if force_update then update_job B existing_job_id config
         else bind (print MSkipping) (\<lambda>_. return existing_job_id))
       else
         bind (print MNotExists) (\<lambda>_.
         create_job B config_path)))))"

type_synonym environ = "string \<rightharpoonup> string"

definition get_job_url :: "environ \<Rightarrow> json \<Rightarrow> string option" where
  "get_job_url env job_id =
     (let databricks_host = (case env ''DATABRICKS_HOST'' of None \<Rightarrow> [] | Some h \<Rightarrow> h)
      in if databricks_host \<noteq> [] \<and> truthy job_id
         then Some (rstrip_slash databricks_host @ ''/#job/'' @ py_str job_id)
         else None)"

text \<open>The parsed command line: \<^verbatim>\<open>--config\<close>, \<^verbatim>\<open>--force-update\<close>, \<^verbatim>\<open>--run\<close>.\<close>

record args =
  config :: string
  force_update :: bool
  run :: bool

text \<open>\<^verbatim>\<open>os.environ.get(k)\<close> as a truth value: unset and empty are false.\<close>

definition env_truthy :: "environ \<Rightarrow> string \<Rightarrow> bool" where
  "env_truthy env k = (case env k of None \<Rightarrow> False | Some v \<Rightarrow> v \<noteq> [])"

text \<open>\<^verbatim>\<open>if job_url: print(...)\<close> for a \<open>job_url\<close> that is \<^verbatim>\<open>None\<close> or a string.\<close>

definition when_url :: "string option \<Rightarrow> (string \<Rightarrow> unit prog) \<Rightarrow> unit prog" where
  "when_url job_url f =
     (case job_url of None \<Rightarrow> return () | Some u \<Rightarrow> if u \<noteq> [] then f u else return ())"

text \<open>The body of \<^verbatim>\<open>if args.run and job_id:\<close> in \<open>main\<close>.\<close>

definition trigger_run :: "bridge \<Rightarrow> json \<Rightarrow> string option \<Rightarrow> unit prog" where
  "trigger_run B job_id job_url =
     bind (print MTriggering) (\<lambda>_.
     bind (run_command B (JobsRunNow job_id) True) (\<lambda>output.
     try_except
       (bind (lift (json_loads output)) (\<lambda>result.
        bind (lift (py_get result ''run_id'' JNull)) (\<lambda>run_id.
        bind (print (MRunTriggered run_id)) (\<lambda>_.
        when_url job_url (\<lambda>u. print (MRunURL (u @ ''/runs/'' @ py_str run_id)))))))
       (\<lambda>e. e = JSONDecodeError)
       (\<lambda>e. print MRunTriggeredNoId)))"

definition main :: "environ \<Rightarrow> bridge \<Rightarrow> args \<Rightarrow> unit prog" where
  "main env B a =
     (if \<not> env_truthy env ''DATABRICKS_HOST'' \<or> \<not> env_truthy env ''DATABRICKS_TOKEN''
      then bind (print MCredentialsMissing) (\<lambda>_. exit 1)
      else
        bind (print MConfiguring) (\<lambda>_.
        bind (try_except_all
                (bind (run_command B JobsConfigure False) (\<lambda>_. print MConfigured))
                (print MWarnConfigure)) (\<lambda>_.
        bind (print MRule) (\<lambda>_.
        bind (print MTitle) (\<lambda>_.
        bind (print MRule) (\<lambda>_.
        bind (manage_job B (config a) (force_update a)) (\<lambda>job_id.
        let job_url = get_job_url env job_id in
        bind (when_url job_url (\<lambda>u. print (MJobURL u))) (\<lambda>_.
        bind (if run a \<and> truthy job_id then trigger_run B job_id job_url
              else return ()) (\<lambda>_.
        bind (print MRuleAfterBlank) (\<lambda>_.
        bind (print MCompleted) (\<lambda>_.
        print MRule)))))))))))"

text \<open>
  The exit status of the process: 0 when \<open>main\<close> returns, the argument of
  \<^verbatim>\<open>sys.exit\<close>, and 1 for an exception nobody caught.
\<close>

fun exit_status :: "'a outcome \<Rightarrow> int" where
  "exit_status (Return x) = 0"
| "exit_status (Exit n) = n"
| "exit_status (Raise e) = 1"

section \<open>The registry as the lookup reads it\<close>

text \<open>
  The name of a listing entry is the value of \<^verbatim>\<open>job.get("settings", {}).get("name")\<close>
  when that expression does not raise; its identifier is \<^verbatim>\<open>job.get("job_id")\<close>.
\<close>

definition entry_name :: "json \<Rightarrow> json option" where
  "entry_name job =
     (case py_get job ''settings'' (JObj []) of
        Inl e \<Rightarrow> None
      | Inr settings \<Rightarrow>
          (case py_get settings ''name'' JNull of Inl e \<Rightarrow> None | Inr n \<Rightarrow> Some n))"

definition entry_id :: "json \<Rightarrow> json" where
  "entry_id job = (case py_get job ''job_id'' JNull of Inl e \<Rightarrow> JNull | Inr i \<Rightarrow> i)"

text \<open>
  The entries that the loop of \<open>get_existing_job_id\<close> visits when the list command exits
  with status 0 and its output is empty or decodes to something the loop can iterate over.
\<close>

definition listed_jobs :: "bridge \<Rightarrow> json list option" where
  "listed_jobs B =
     (if returncode (B JobsList) \<noteq> 0 then None
      else case stdout (B JobsList) of
             Blank \<Rightarrow> Some []
           | Garbage \<Rightarrow> None
           | Json v \<Rightarrow>
               (case py_get v ''jobs'' (JList []) of
                  Inl e \<Rightarrow> None
                | Inr js \<Rightarrow> (case py_iter js of Inl e \<Rightarrow> None | Inr jl \<Rightarrow> Some jl)))"

text \<open>
  The resolution rule in the words of the specification: the identifier of the first entry,
  in listing order, whose name is exactly the given string; nothing when there is none.
\<close>

definition resolve :: "string \<Rightarrow> json list \<Rightarrow> json" where
  "resolve n jl =
     (case find (\<lambda>j. entry_name j = Some (JStr n)) jl of
        None \<Rightarrow> JNull
      | Some j \<Rightarrow> entry_id j)"

text \<open>The lines printed by the step that configures the API version in \<open>main\<close>.\<close>

definition configure_msgs :: "bridge \<Rightarrow> msg list" where
  "configure_msgs B =
     (if returncode (B JobsConfigure) = 0 then [MConfigured]
      else [MCommandFailed JobsConfigure, MError None, MWarnConfigure])"

subsection \<open>Concrete worlds\<close>

text \<open>
  A configuration \<^verbatim>\<open>{"name": "ingest-daily"}\<close> stored in \<^verbatim>\<open>job.json\<close>, listings of
  entries \<^verbatim>\<open>{"job_id": i, "settings": {"name": n}}\<close>, and a command-line tool whose
  answers to the list, create and reset commands are given.
\<close>

definition ok :: "pytext \<Rightarrow> completed" where
  "ok t = \<lparr>returncode = 0, stdout = t, stderr = []\<rparr>"

definition failed :: "string \<Rightarrow> completed" where
  "failed e = \<lparr>returncode = 1, stdout = Blank, stderr = e\<rparr>"

definition demo_config :: json where
  "demo_config = JObj [(''name'', JStr ''ingest-daily'')]"

definition demo_state :: state where
  "demo_state = \<lparr>files = [''job.json'' \<mapsto> Json demo_config], calls = [], out = []\<rparr>"

definition demo_entry :: "string \<Rightarrow> json \<Rightarrow> json" where
  "demo_entry n i = JObj [(''job_id'', i), (''settings'', JObj [(''name'', JStr n)])]"

definition demo_listing :: "json list \<Rightarrow> completed" where
  "demo_listing jl = ok (Json (JObj [(''jobs'', JList jl)]))"

definition demo_bridge :: "completed \<Rightarrow> completed \<Rightarrow> completed \<Rightarrow> bridge" where
  "demo_bridge listing created updated cmd =
     (case cmd of
        JobsList \<Rightarrow> listing
      | JobsCreate p \<Rightarrow> created
      | JobsReset i p \<Rightarrow> updated
      | JobsRunNow i \<Rightarrow> ok (Json (JObj [(''run_id'', JInt 9001)]))
      | JobsConfigure \<Rightarrow> ok Blank)"

section \<open>Auxiliary facts\<close>

lemmas prog_defs = return_def exit_def lift_def bind_def try_except_def try_except_all_def
  try_finally_def print_def

lemmas demo_defs = ok_def failed_def demo_config_def demo_state_def demo_entry_def
  demo_listing_def demo_bridge_def

lemma py_eq_JStr: "py_eq m (JStr n) \<longleftrightarrow> m = JStr n"
  by (cases m) auto

lemma entry_name_SomeD:
  assumes "entry_name j = Some m"
  shows "\<exists>kv s. j = JObj kv \<and> py_get j ''settings'' (JObj []) = Inr (JObj s) \<and>
            py_get (JObj s) ''name'' JNull = Inr m"
proof (cases j)
  case (JObj kv)
  define sv where "sv = (case map_of kv ''settings'' of None \<Rightarrow> JObj [] | Some v \<Rightarrow> v)"
  have g: "py_get j ''settings'' (JObj []) = Inr sv"
    by (simp add: JObj sv_def)
  with assms have nm: "(case py_get sv ''name'' JNull of Inl e \<Rightarrow> None | Inr n \<Rightarrow> Some n) = Some m"
    by (simp add: entry_name_def del: py_get.simps)
  then obtain s where s: "sv = JObj s"
    by (cases sv) simp_all
  from nm s have "py_get (JObj s) ''name'' JNull = Inr m"
    by simp
  with JObj g s show ?thesis by blast
qed (use assms in \<open>simp_all add: entry_name_def\<close>)

lemma find_job_resolve:
  "\<forall>j\<in>set jl. entry_name j \<noteq> None \<Longrightarrow> find_job (JStr n) jl = Inr (resolve n jl)"
proof (induction jl)
  case Nil
  show ?case by (simp add: resolve_def)
next
  case (Cons j jl)
  then obtain m where m: "entry_name j = Some m" by auto
  from entry_name_SomeD[OF m] obtain kv s where
    j: "j = JObj kv" and s: "py_get j ''settings'' (JObj []) = Inr (JObj s)"
    and nm: "py_get (JObj s) ''name'' JNull = Inr m" by blast
  have ih: "find_job (JStr n) jl = Inr (resolve n jl)" using Cons by simp
  show ?case
  proof (cases "m = JStr n")
    case True
    have "find_job (JStr n) (j # jl) = py_get j ''job_id'' JNull"
      using s nm True by (simp add: py_eq_JStr del: py_get.simps)
    also have "\<dots> = Inr (entry_id j)" by (simp add: j entry_id_def)
    finally show ?thesis using m True by (simp add: resolve_def)
  next
    case False
    have "find_job (JStr n) (j # jl) = find_job (JStr n) jl"
      using s nm False by (simp add: py_eq_JStr del: py_get.simps)
    then show ?thesis using ih m False by (simp add: resolve_def)
  qed
qed

lemma get_existing_job_id_listed:
  assumes "listed_jobs B = Some jl" and "\<forall>j\<in>set jl. entry_name j \<noteq> None"
  shows "get_existing_job_id B (JStr n) st =
           (Return (resolve n jl), st\<lparr>calls := calls st @ [JobsList]\<rparr>)"
  using assms(1) find_job_resolve[OF assms(2), of n]
  by (auto simp: get_existing_job_id_def listed_jobs_def run_command_def prog_defs Let_def
           split: if_splits pytext.splits sum.splits)

lemma load_job_config_ok:
  "files st path = Some (Json c) \<Longrightarrow>
     load_job_config path st = (Return c, st\<lparr>out := out st @ [MLoaded path]\<rparr>)"
  by (simp add: load_job_config_def prog_defs)

lemma update_job_result:
  "update_job B jid c st =
     (if returncode (B (JobsReset jid temp_file)) = 0
      then (Return jid,
            st\<lparr>files := (files st)(temp_file := None),
               calls := calls st @ [JobsReset jid temp_file],
               out := out st @ [MUpdating jid, MUpdated jid]\<rparr>)
      else (Exit 1,
            st\<lparr>files := (files st)(temp_file := None),
               calls := calls st @ [JobsReset jid temp_file],
               out := out st @ [MUpdating jid, MCommandFailed (JobsReset jid temp_file),
                                MError None]\<rparr>))"
  by (simp add: update_job_def run_command_def write_json_def remove_if_exists_def prog_defs
        Let_def)

lemma create_job_calls:
  "calls (snd (create_job B path st)) = calls st @ [JobsCreate path]"
  by (auto simp: create_job_def run_command_def prog_defs Let_def
           split: sum.splits prod.splits outcome.splits)

lemma create_job_unparseable:
  assumes "returncode (B (JobsCreate path)) = 0"
    and "json_loads (Some (stdout (B (JobsCreate path)))) = Inl JSONDecodeError"
  shows "create_job B path st =
           (Return JNull, st\<lparr>calls := calls st @ [JobsCreate path],
                             out := out st @ [MCreating, MCreatedNoId]\<rparr>)"
  using assms
  by (simp add: create_job_def run_command_def prog_defs Let_def)

lemma manage_job_after_lookup:
  assumes "files st path = Some (Json (JObj ckv))"
    and "map_of ckv ''name'' = Some (JStr n)" and "n \<noteq> []"
    and "listed_jobs B = Some jl" and "\<forall>j\<in>set jl. entry_name j \<noteq> None"
  shows "manage_job B path force st =
     (let st2 = st\<lparr>calls := calls st @ [JobsList],
                   out := out st @ [MLoaded path, MManaging (JStr n)]\<rparr>;
          e = resolve n jl
      in if truthy e
         then (if force then update_job B e (JObj ckv)
               else return e \<circ> (\<lambda>s. s\<lparr>out := out s @ [MSkipping]\<rparr>))
                (st2\<lparr>out := out st2 @ [MExists e]\<rparr>)
         else create_job B path (st2\<lparr>out := out st2 @ [MNotExists]\<rparr>))"
  using assms(2,3)
  by (simp add: manage_job_def load_job_config_ok[OF assms(1)]
        get_existing_job_id_listed[OF assms(4,5)] prog_defs Let_def)

lemma lookup_exits_when_list_fails:
  "returncode (B JobsList) \<noteq> 0 \<Longrightarrow>
     get_existing_job_id B job_name st =
       (Exit 1, st\<lparr>calls := calls st @ [JobsList],
                    out := out st @ [MCommandFailed JobsList,
                                     MError (Some (stderr (B JobsList)))]\<rparr>)"
  by (simp add: get_existing_job_id_def run_command_def prog_defs Let_def)

lemma lookup_warns_when_output_unparseable:
  "returncode (B JobsList) = 0 \<Longrightarrow> stdout (B JobsList) = Garbage \<Longrightarrow>
     get_existing_job_id B job_name st =
       (Return JNull, st\<lparr>calls := calls st @ [JobsList],
                         out := out st @ [MWarnCheck JSONDecodeError]\<rparr>)"
  by (simp add: get_existing_job_id_def run_command_def prog_defs Let_def)

lemma manage_job_aborts_when_list_fails:
  assumes "files st path = Some (Json (JObj ckv))"
    and "map_of ckv ''name'' = Some (JStr n)" and "n \<noteq> []"
    and "returncode (B JobsList) \<noteq> 0"
  shows "manage_job B path force st =
           (Exit 1, st\<lparr>calls := calls st @ [JobsList],
                        out := out st @ [MLoaded path, MManaging (JStr n),
                                         MCommandFailed JobsList,
                                         MError (Some (stderr (B JobsList)))]\<rparr>)"
  using assms(2,3,4)
  by (simp add: manage_job_def load_job_config_ok[OF assms(1)]
        lookup_exits_when_list_fails prog_defs)

lemma manage_job_creates_when_output_unparseable:
  assumes "files st path = Some (Json (JObj ckv))"
    and "map_of ckv ''name'' = Some (JStr n)" and "n \<noteq> []"
    and "returncode (B JobsList) = 0" and "stdout (B JobsList) = Garbage"
  shows "manage_job B path force st =
           create_job B path
             (st\<lparr>calls := calls st @ [JobsList],
                 out := out st @ [MLoaded path, MManaging (JStr n),
                                  MWarnCheck JSONDecodeError, MNotExists]\<rparr>)"
  using assms(2,3,4,5)
  by (simp add: manage_job_def load_job_config_ok[OF assms(1)]
        lookup_warns_when_output_unparseable prog_defs)

lemma main_without_credentials:
  "\<not> env_truthy env ''DATABRICKS_HOST'' \<or> \<not> env_truthy env ''DATABRICKS_TOKEN'' \<Longrightarrow>
     main env B a st = (Exit 1, st\<lparr>out := out st @ [MCredentialsMissing]\<rparr>)"
  by (auto simp: main_def prog_defs)

lemma main_after_configure:
  assumes "env_truthy env ''DATABRICKS_HOST''" and "env_truthy env ''DATABRICKS_TOKEN''"
  shows "main env B a st =
     bind (manage_job B (config a) (force_update a)) (\<lambda>job_id.
        bind (when_url (get_job_url env job_id) (\<lambda>u. print (MJobURL u))) (\<lambda>_.
        bind (if run a \<and> truthy job_id then trigger_run B job_id (get_job_url env job_id)
              else return ()) (\<lambda>_.
        bind (print MRuleAfterBlank) (\<lambda>_.
        bind (print MCompleted) (\<lambda>_.
        print MRule)))))
       (st\<lparr>calls := calls st @ [JobsConfigure],
           out := out st @ MConfiguring # configure_msgs B @ [MRule, MTitle, MRule]\<rparr>)"
  using assms
  by (simp add: main_def run_command_def configure_msgs_def prog_defs Let_def)

lemma trigger_run_parsed:
  assumes "returncode (B (JobsRunNow jid)) = 0"
    and "stdout (B (JobsRunNow jid)) = Json (JObj rkv)" and "u \<noteq> []"
  shows "trigger_run B jid (Some u) st =
           (Return (),
            st\<lparr>calls := calls st @ [JobsRunNow jid],
               out := out st @
                 [MTriggering,
                  MRunTriggered (case map_of rkv ''run_id'' of None \<Rightarrow> JNull | Some v \<Rightarrow> v),
                  MRunURL (u @ ''/runs/'' @
                    py_str (case map_of rkv ''run_id'' of None \<Rightarrow> JNull | Some v \<Rightarrow> v))]\<rparr>)"
  using assms
  by (simp add: trigger_run_def run_command_def when_url_def prog_defs Let_def)

section \<open>The claims\<close>

subsection \<open>C1: a failing list command\<close>

text \<open>
  Claim C1 says that when the list command exits with a non-zero status, reconciliation
  goes on as if no job had the name: it prints a warning and creates the job. The code
  does not: \<open>run_command\<close> answers the non-zero status with \<^verbatim>\<open>sys.exit(1)\<close>, and the
  \<^verbatim>\<open>except Exception\<close> of \<open>get_existing_job_id\<close> does not catch \<^verbatim>\<open>SystemExit\<close>.
  With the configuration \<^verbatim>\<open>{"name": "ingest-daily"}\<close> and a list command that exits
  with status 1, \<open>manage_job\<close> ends the process with status 1 after the list command: no
  warning is printed and no create command is issued. (For an output that does not
  decode the claim holds, see \<open>manage_job_creates_when_output_unparseable\<close>.)
\<close>

theorem list_failure_aborts:
  "fst (manage_job (demo_bridge (failed ''connection refused'') (ok Blank) (ok Blank))
          ''job.json'' False demo_state) = Exit 1 \<and>
   calls (snd (manage_job (demo_bridge (failed ''connection refused'') (ok Blank) (ok Blank))
          ''job.json'' False demo_state)) = [JobsList] \<and>
   out (snd (manage_job (demo_bridge (failed ''connection refused'') (ok Blank) (ok Blank))
          ''job.json'' False demo_state)) =
     [MLoaded ''job.json'', MManaging (JStr ''ingest-daily''), MCommandFailed JobsList,
      MError (Some ''connection refused'')]"
  by (simp add: demo_defs manage_job_def load_job_config_def
        get_existing_job_id_def run_command_def prog_defs)

subsection \<open>C2: an existing job is left alone without \<^verbatim>\<open>--force-update\<close>\<close>

text \<open>
  Claim C2, as amended: when the configuration's name is a non-empty string, the listing
  is readable, and the first entry with exactly that name carries a truthy identifier,
  then \<open>manage_job\<close> without \<^verbatim>\<open>force_update\<close> returns that identifier and the only
  command it issues is the list command: no create, no update, no file is touched.
\<close>

theorem skip_existing_job:
  assumes "files st path = Some (Json (JObj ckv))"
    and "map_of ckv ''name'' = Some (JStr n)" and "n \<noteq> []"
    and "listed_jobs B = Some jl" and "\<forall>j\<in>set jl. entry_name j \<noteq> None"
    and "find (\<lambda>j. entry_name j = Some (JStr n)) jl = Some j"
    and "truthy (entry_id j)"
  shows "manage_job B path False st =
           (Return (entry_id j),
            st\<lparr>calls := calls st @ [JobsList],
               out := out st @ [MLoaded path, MManaging (JStr n), MExists (entry_id j),
                                MSkipping]\<rparr>)"
  using assms(6,7)
  by (simp add: manage_job_after_lookup[OF assms(1-5)] resolve_def return_def Let_def)

theorem skip_existing_job_witness:
  "manage_job
     (demo_bridge (demo_listing [demo_entry ''ingest-daily'' (JInt 42)]) (ok Blank) (ok Blank))
     ''job.json'' False demo_state =
   (Return (JInt 42),
    demo_state\<lparr>calls := [JobsList],
               out := [MLoaded ''job.json'', MManaging (JStr ''ingest-daily''),
                       MExists (JInt 42), MSkipping]\<rparr>)"
  using skip_existing_job[of demo_state "''job.json''" "[(''name'', JStr ''ingest-daily'')]"
      "''ingest-daily''"
      "demo_bridge (demo_listing [demo_entry ''ingest-daily'' (JInt 42)]) (ok Blank) (ok Blank)"
      "[demo_entry ''ingest-daily'' (JInt 42)]" "demo_entry ''ingest-daily'' (JInt 42)"]
  by (simp add: demo_defs listed_jobs_def entry_name_def entry_id_def)

text \<open>
  The claim as stated fails for an entry whose identifier is 0: the name matches, and
  yet the job is created and the identifier of the new job is returned.
\<close>

theorem skip_existing_job_counterexample:
  "listed_jobs (demo_bridge (demo_listing [demo_entry ''ingest-daily'' (JInt 0)])
                  (ok (Json (JObj [(''job_id'', JInt 77)]))) (ok Blank))
     = Some [demo_entry ''ingest-daily'' (JInt 0)] \<and>
   fst (manage_job
     (demo_bridge (demo_listing [demo_entry ''ingest-daily'' (JInt 0)])
        (ok (Json (JObj [(''job_id'', JInt 77)]))) (ok Blank))
     ''job.json'' False demo_state) = Return (JInt 77) \<and>
   calls (snd (manage_job
     (demo_bridge (demo_listing [demo_entry ''ingest-daily'' (JInt 0)])
        (ok (Json (JObj [(''job_id'', JInt 77)]))) (ok Blank))
     ''job.json'' False demo_state)) = [JobsList, JobsCreate ''job.json'']"
  by (simp add: demo_defs listed_jobs_def manage_job_def load_job_config_def
        get_existing_job_id_def create_job_def run_command_def prog_defs)

subsection \<open>C3: an existing job is updated with \<^verbatim>\<open>--force-update\<close>\<close>

text \<open>
  Claim C3, as amended: when the configuration's name is a non-empty string, the listing
  is readable, and the first entry with exactly that name carries a truthy identifier,
  then \<open>manage_job\<close> with \<^verbatim>\<open>force_update\<close> issues the list command and then exactly
  one reset command for that identifier, and no create command; it returns that same
  identifier when the reset command exits with status 0, and ends the process with
  status 1 otherwise.
\<close>

theorem update_existing_job:
  assumes "files st path = Some (Json (JObj ckv))"
    and "map_of ckv ''name'' = Some (JStr n)" and "n \<noteq> []"
    and "listed_jobs B = Some jl" and "\<forall>j\<in>set jl. entry_name j \<noteq> None"
    and "find (\<lambda>j. entry_name j = Some (JStr n)) jl = Some j"
    and "truthy (entry_id j)"
  shows "calls (snd (manage_job B path True st)) =
           calls st @ [JobsList, JobsReset (entry_id j) temp_file] \<and>
         fst (manage_job B path True st) =
           (if returncode (B (JobsReset (entry_id j) temp_file)) = 0
            then Return (entry_id j) else Exit 1)"
  using assms(6,7)
  by (simp add: manage_job_after_lookup[OF assms(1-5)] resolve_def update_job_result Let_def)

theorem update_existing_job_witness:
  "calls (snd (manage_job
     (demo_bridge (demo_listing [demo_entry ''ingest-daily'' (JInt 42)]) (ok Blank) (ok Blank))
     ''job.json'' True demo_state)) = [JobsList, JobsReset (JInt 42) temp_file] \<and>
   fst (manage_job
     (demo_bridge (demo_listing [demo_entry ''ingest-daily'' (JInt 42)]) (ok Blank) (ok Blank))
     ''job.json'' True demo_state) = Return (JInt 42)"
  using update_existing_job[of demo_state "''job.json''" "[(''name'', JStr ''ingest-daily'')]"
      "''ingest-daily''"
      "demo_bridge (demo_listing [demo_entry ''ingest-daily'' (JInt 42)]) (ok Blank) (ok Blank)"
      "[demo_entry ''ingest-daily'' (JInt 42)]" "demo_entry ''ingest-daily'' (JInt 42)"]
  by (simp add: demo_defs listed_jobs_def entry_name_def entry_id_def)

text \<open>
  The claim as stated fails for an entry whose identifier is 0: the name matches, and
  yet no reset command is issued, the job is created, and a new identifier is returned.
\<close>

theorem update_existing_job_counterexample:
  "listed_jobs (demo_bridge (demo_listing [demo_entry ''ingest-daily'' (JInt 0)])
                  (ok (Json (JObj [(''job_id'', JInt 77)]))) (ok Blank))
     = Some [demo_entry ''ingest-daily'' (JInt 0)] \<and>
   fst (manage_job
     (demo_bridge (demo_listing [demo_entry ''ingest-daily'' (JInt 0)])
        (ok (Json (JObj [(''job_id'', JInt 77)]))) (ok Blank))
     ''job.json'' True demo_state) = Return (JInt 77) \<and>
   calls (snd (manage_job
     (demo_bridge (demo_listing [demo_entry ''ingest-daily'' (JInt 0)])
        (ok (Json (JObj [(''job_id'', JInt 77)]))) (ok Blank))
     ''job.json'' True demo_state)) = [JobsList, JobsCreate ''job.json'']"
  by (simp add: demo_defs listed_jobs_def manage_job_def load_job_config_def
        get_existing_job_id_def create_job_def run_command_def prog_defs)

subsection \<open>C4: no job with the name\<close>

text \<open>
  Claim C4: when the configuration's name is a non-empty string and the readable listing
  has no entry with that name, \<open>manage_job\<close> issues, after the list command, exactly one
  create command and no reset command, whatever \<^verbatim>\<open>force_update\<close> is.
\<close>

theorem create_when_absent:
  assumes "files st path = Some (Json (JObj ckv))"
    and "map_of ckv ''name'' = Some (JStr n)" and "n \<noteq> []"
    and "listed_jobs B = Some jl" and "\<forall>j\<in>set jl. entry_name j \<noteq> None"
    and "\<forall>j\<in>set jl. entry_name j \<noteq> Some (JStr n)"
  shows "calls (snd (manage_job B path force st)) = calls st @ [JobsList, JobsCreate path]"
proof -
  have "find (\<lambda>j. entry_name j = Some (JStr n)) jl = None"
    using assms(6) by (simp add: find_None_iff)
  then show ?thesis
    by (simp add: manage_job_after_lookup[OF assms(1-5)] resolve_def create_job_calls Let_def)
qed

theorem create_when_absent_witness:
  "calls (snd (manage_job
     (demo_bridge (demo_listing [demo_entry ''ingest-hourly'' (JInt 5)])
        (ok (Json (JObj [(''job_id'', JInt 77)]))) (ok Blank))
     ''job.json'' False demo_state)) = [JobsList, JobsCreate ''job.json''] \<and>
   calls (snd (manage_job
     (demo_bridge (demo_listing [demo_entry ''ingest-hourly'' (JInt 5)])
        (ok (Json (JObj [(''job_id'', JInt 77)]))) (ok Blank))
     ''job.json'' True demo_state)) = [JobsList, JobsCreate ''job.json'']"
  using create_when_absent[of demo_state "''job.json''" "[(''name'', JStr ''ingest-daily'')]"
      "''ingest-daily''"
      "demo_bridge (demo_listing [demo_entry ''ingest-hourly'' (JInt 5)])
        (ok (Json (JObj [(''job_id'', JInt 77)]))) (ok Blank)"
      "[demo_entry ''ingest-hourly'' (JInt 5)]" False]
    create_when_absent[of demo_state "''job.json''" "[(''name'', JStr ''ingest-daily'')]"
      "''ingest-daily''"
      "demo_bridge (demo_listing [demo_entry ''ingest-hourly'' (JInt 5)])
        (ok (Json (JObj [(''job_id'', JInt 77)]))) (ok Blank)"
      "[demo_entry ''ingest-hourly'' (JInt 5)]" True]
  by (simp add: demo_defs listed_jobs_def entry_name_def)

subsection \<open>C5: the scratch file of an update\<close>

text \<open>
  Claim C5: for every identifier and configuration, when \<open>update_job\<close> ends, by
  returning the identifier or by \<^verbatim>\<open>sys.exit(1)\<close> after a failed reset command, the file
  \<^verbatim>\<open>temp_job_config.json\<close> does not exist.
\<close>

theorem scratch_file_removed:
  "files (snd (update_job B job_id cfg st)) temp_file = None \<and>
   (fst (update_job B job_id cfg st) = Return job_id \<or>
    fst (update_job B job_id cfg st) = Exit 1)"
  by (simp add: update_job_result)

theorem scratch_file_removed_witness:
  "files (snd (update_job (demo_bridge (ok Blank) (ok Blank) (failed ''no such job''))
                 (JInt 42) demo_config demo_state)) temp_file = None \<and>
   fst (update_job (demo_bridge (ok Blank) (ok Blank) (failed ''no such job''))
          (JInt 42) demo_config demo_state) = Exit 1"
  using scratch_file_removed[of "demo_bridge (ok Blank) (ok Blank) (failed ''no such job'')"
      "JInt 42" demo_config demo_state]
  by (simp add: demo_defs update_job_def run_command_def write_json_def remove_if_exists_def
        prog_defs)

subsection \<open>C6: a configuration without a name\<close>

text \<open>
  Claim C6: when the configuration has no \<^verbatim>\<open>name\<close> or an empty one, \<open>manage_job\<close>
  ends the process with status 1 and issues no command at all; in \<open>main\<close> the exit status
  is 1 and the only command that can have been issued is the one that configures the API
  version, which precedes \<open>manage_job\<close>.
\<close>

theorem missing_name_is_fatal:
  assumes "files st (config a) = Some (Json (JObj ckv))"
    and "map_of ckv ''name'' = None \<or> map_of ckv ''name'' = Some (JStr [])"
  shows "manage_job B (config a) (force_update a) st =
           (Exit 1, st\<lparr>out := out st @ [MLoaded (config a), MNameNotFound]\<rparr>) \<and>
         exit_status (fst (main env B a st)) = 1 \<and>
         (calls (snd (main env B a st)) = calls st \<or>
          calls (snd (main env B a st)) = calls st @ [JobsConfigure])"
proof -
  have m: "manage_job B (config a) (force_update a) s =
           (Exit 1, s\<lparr>out := out s @ [MLoaded (config a), MNameNotFound]\<rparr>)"
    if "files s (config a) = Some (Json (JObj ckv))" for s
    using assms(2)
    by (auto simp: manage_job_def load_job_config_ok[OF that] prog_defs)
  show ?thesis
  proof (cases "env_truthy env ''DATABRICKS_HOST'' \<and> env_truthy env ''DATABRICKS_TOKEN''")
    case True
    then show ?thesis
      using assms(1) by (simp add: main_after_configure m bind_def)
  next
    case False
    then show ?thesis
      using assms(1) by (auto simp: main_without_credentials m)
  qed
qed

theorem missing_name_is_fatal_witness:
  "manage_job (demo_bridge (demo_listing []) (ok Blank) (ok Blank)) ''job.json'' False
     \<lparr>files = [''job.json'' \<mapsto> Json (JObj [])], calls = [], out = []\<rparr> =
     (Exit 1, \<lparr>files = [''job.json'' \<mapsto> Json (JObj [])], calls = [],
               out = [MLoaded ''job.json'', MNameNotFound]\<rparr>) \<and>
   exit_status (fst (main [''DATABRICKS_HOST'' \<mapsto> ''https://adb.example.net'',
                           ''DATABRICKS_TOKEN'' \<mapsto> ''t0ken'']
     (demo_bridge (demo_listing []) (ok Blank) (ok Blank))
     \<lparr>config = ''job.json'', force_update = False, run = False\<rparr>
     \<lparr>files = [''job.json'' \<mapsto> Json (JObj [])], calls = [], out = []\<rparr>)) = 1"
  using missing_name_is_fatal[of
      "\<lparr>files = [''job.json'' \<mapsto> Json (JObj [])], calls = [], out = []\<rparr>"
      "\<lparr>config = ''job.json'', force_update = False, run = False\<rparr>" "[]"
      "demo_bridge (demo_listing []) (ok Blank) (ok Blank)"
      "[''DATABRICKS_HOST'' \<mapsto> ''https://adb.example.net'',
        ''DATABRICKS_TOKEN'' \<mapsto> ''t0ken'']"]
  by simp

subsection \<open>C7: the first exact match wins\<close>

text \<open>
  Claim C7: on a readable listing, \<open>get_existing_job_id\<close> for a string name returns
  what \<open>resolve\<close> says: the identifier of the first entry, in listing order, whose name
  is exactly that string, and \<^verbatim>\<open>None\<close> when there is none. Later entries with the same
  name are ignored, nothing is printed and nothing is raised. The comparison \<^verbatim>\<open>==\<close>
  with a string holds for that very string only.
\<close>

theorem lookup_first_exact_match:
  assumes "listed_jobs B = Some jl" and "\<forall>j\<in>set jl. entry_name j \<noteq> None"
  shows "get_existing_job_id B (JStr n) st =
           (Return (resolve n jl), st\<lparr>calls := calls st @ [JobsList]\<rparr>) \<and>
         (py_eq m (JStr n) \<longleftrightarrow> m = JStr n)"
  by (simp add: get_existing_job_id_listed[OF assms] py_eq_JStr)

theorem lookup_first_exact_match_witness:
  "get_existing_job_id
     (demo_bridge (demo_listing [demo_entry ''ingest-hourly'' (JInt 5),
                                 demo_entry ''ingest-daily'' (JInt 7),
                                 demo_entry ''ingest-daily'' (JInt 9)]) (ok Blank) (ok Blank))
     (JStr ''ingest-daily'') demo_state =
   (Return (JInt 7), demo_state\<lparr>calls := [JobsList]\<rparr>)"
  using lookup_first_exact_match[of
      "demo_bridge (demo_listing [demo_entry ''ingest-hourly'' (JInt 5),
                                  demo_entry ''ingest-daily'' (JInt 7),
                                  demo_entry ''ingest-daily'' (JInt 9)]) (ok Blank) (ok Blank)"
      "[demo_entry ''ingest-hourly'' (JInt 5), demo_entry ''ingest-daily'' (JInt 7),
        demo_entry ''ingest-daily'' (JInt 9)]" "''ingest-daily''" demo_state JNull]
  by (simp add: demo_defs listed_jobs_def entry_name_def entry_id_def resolve_def)

subsection \<open>C8: the URLs\<close>

text \<open>
  Claim C8, as amended: for a non-empty host and a truthy identifier, the job URL is the
  host with its trailing slashes removed, followed by \<^verbatim>\<open>/#job/\<close> and the identifier;
  when a run is triggered and its output decodes to an object with a \<^verbatim>\<open>run_id\<close>, the
  run URL is that job URL followed by \<^verbatim>\<open>/runs/\<close> and the run identifier.
\<close>

theorem job_url_format:
  assumes "env ''DATABRICKS_HOST'' = Some h" and "h \<noteq> []" and "truthy jid"
    and "returncode (B (JobsRunNow jid)) = 0"
    and "stdout (B (JobsRunNow jid)) = Json (JObj rkv)"
    and "map_of rkv ''run_id'' = Some rid"
  shows "get_job_url env jid = Some (rstrip_slash h @ ''/#job/'' @ py_str jid) \<and>
         out (snd (trigger_run B jid (get_job_url env jid) st)) =
           out st @ [MTriggering, MRunTriggered rid,
                     MRunURL (rstrip_slash h @ ''/#job/'' @ py_str jid @ ''/runs/'' @
                              py_str rid)]"
proof -
  have u: "get_job_url env jid = Some (rstrip_slash h @ ''/#job/'' @ py_str jid)"
    using assms(1-3) by (simp add: get_job_url_def)
  show ?thesis
    using assms(4-6) by (simp add: u trigger_run_parsed)
qed

theorem job_url_format_witness:
  "get_job_url [''DATABRICKS_HOST'' \<mapsto> ''https://adb.example.net/''] (JInt 42) =
     Some ''https://adb.example.net/#job/42'' \<and>
   out (snd (trigger_run (demo_bridge (ok Blank) (ok Blank) (ok Blank)) (JInt 42)
          (get_job_url [''DATABRICKS_HOST'' \<mapsto> ''https://adb.example.net/''] (JInt 42))
          demo_state)) =
     [MTriggering, MRunTriggered (JInt 9001),
      MRunURL ''https://adb.example.net/#job/42/runs/9001'']"
  using job_url_format[of "[''DATABRICKS_HOST'' \<mapsto> ''https://adb.example.net/'']"
      "''https://adb.example.net/''" "JInt 42" "demo_bridge (ok Blank) (ok Blank) (ok Blank)"
      "[(''run_id'', JInt 9001)]" "JInt 9001" demo_state]
  by (simp add: demo_defs get_job_url_def rstrip_slash_def str_int_def dec_nat.simps)

text \<open>
  The claim as stated fails for a host that ends with a slash: the URL is not the host
  followed by \<^verbatim>\<open>/#job/\<close> and the identifier, since the slash of the host is dropped.
\<close>

theorem job_url_counterexample:
  "get_job_url [''DATABRICKS_HOST'' \<mapsto> ''https://adb.example.net/''] (JInt 42) \<noteq>
     Some (''https://adb.example.net/'' @ ''/#job/'' @ py_str (JInt 42))"
  by (simp add: get_job_url_def rstrip_slash_def)

subsection \<open>C9: a matching entry with a falsy identifier\<close>

text \<open>
  Claim C9: when the first entry with the configuration's name carries no identifier or
  a falsy one, the lookup returns that falsy value, and \<open>manage_job\<close> takes the create
  path: after the list command it issues one create command.
\<close>

theorem falsy_identifier_creates:
  assumes "files st path = Some (Json (JObj ckv))"
    and "map_of ckv ''name'' = Some (JStr n)" and "n \<noteq> []"
    and "listed_jobs B = Some jl" and "\<forall>j\<in>set jl. entry_name j \<noteq> None"
    and "find (\<lambda>j. entry_name j = Some (JStr n)) jl = Some j"
    and "\<not> truthy (entry_id j)"
  shows "get_existing_job_id B (JStr n) st' =
           (Return (entry_id j), st'\<lparr>calls := calls st' @ [JobsList]\<rparr>) \<and>
         calls (snd (manage_job B path force st)) = calls st @ [JobsList, JobsCreate path]"
  using assms(6,7)
  by (simp add: manage_job_after_lookup[OF assms(1-5)] get_existing_job_id_listed[OF assms(4,5)]
        resolve_def create_job_calls Let_def)

theorem falsy_identifier_creates_witness:
  "get_existing_job_id
     (demo_bridge (demo_listing [demo_entry ''ingest-daily'' (JInt 0)])
        (ok (Json (JObj [(''job_id'', JInt 77)]))) (ok Blank))
     (JStr ''ingest-daily'') demo_state = (Return (JInt 0), demo_state\<lparr>calls := [JobsList]\<rparr>) \<and>
   calls (snd (manage_job
     (demo_bridge (demo_listing [demo_entry ''ingest-daily'' (JInt 0)])
        (ok (Json (JObj [(''job_id'', JInt 77)]))) (ok Blank))
     ''job.json'' False demo_state)) = [JobsList, JobsCreate ''job.json'']"
  using falsy_identifier_creates[of demo_state "''job.json''" "[(''name'', JStr ''ingest-daily'')]"
      "''ingest-daily''"
      "demo_bridge (demo_listing [demo_entry ''ingest-daily'' (JInt 0)])
        (ok (Json (JObj [(''job_id'', JInt 77)]))) (ok Blank)"
      "[demo_entry ''ingest-daily'' (JInt 0)]" "demo_entry ''ingest-daily'' (JInt 0)"
      demo_state False]
  by (simp add: demo_defs listed_jobs_def entry_name_def entry_id_def)

subsection \<open>C10: a create command whose output does not decode\<close>

text \<open>
  Claim C10: when the lookup finds no truthy identifier and the create command exits
  with status 0 but its output does not decode, \<open>create_job\<close> returns \<^verbatim>\<open>None\<close>,
  \<open>manage_job\<close> returns \<^verbatim>\<open>None\<close>, no URL is built for \<^verbatim>\<open>None\<close>, and \<open>main\<close>
  runs to its end without printing a job URL and without triggering a run.
\<close>

theorem unparseable_create_output:
  assumes "env_truthy env ''DATABRICKS_HOST''" and "env_truthy env ''DATABRICKS_TOKEN''"
    and "files st (config a) = Some (Json (JObj ckv))"
    and "map_of ckv ''name'' = Some (JStr n)" and "n \<noteq> []"
    and "listed_jobs B = Some jl" and "\<forall>j\<in>set jl. entry_name j \<noteq> None"
    and "\<not> truthy (resolve n jl)"
    and "returncode (B (JobsCreate (config a))) = 0"
    and "json_loads (Some (stdout (B (JobsCreate (config a))))) = Inl JSONDecodeError"
  shows "create_job B (config a) st' =
           (Return JNull, st'\<lparr>calls := calls st' @ [JobsCreate (config a)],
                              out := out st' @ [MCreating, MCreatedNoId]\<rparr>) \<and>
         fst (manage_job B (config a) (force_update a) st) = Return JNull \<and>
         get_job_url env JNull = None \<and>
         main env B a st =
           (Return (),
            st\<lparr>calls := calls st @ [JobsConfigure, JobsList, JobsCreate (config a)],
               out := out st @ MConfiguring # configure_msgs B @
                 [MRule, MTitle, MRule, MLoaded (config a), MManaging (JStr n), MNotExists,
                  MCreating, MCreatedNoId, MRuleAfterBlank, MCompleted, MRule]\<rparr>)"
proof -
  have c: "create_job B (config a) s =
           (Return JNull, s\<lparr>calls := calls s @ [JobsCreate (config a)],
                            out := out s @ [MCreating, MCreatedNoId]\<rparr>)" for s
    using assms(9,10) by (rule create_job_unparseable)
  have u: "get_job_url env JNull = None"
    by (simp add: get_job_url_def)
  have m: "manage_job B (config a) (force_update a) s =
           (Return JNull,
            s\<lparr>calls := calls s @ [JobsList, JobsCreate (config a)],
              out := out s @ [MLoaded (config a), MManaging (JStr n), MNotExists,
                              MCreating, MCreatedNoId]\<rparr>)"
    if "files s (config a) = Some (Json (JObj ckv))" for s
    using assms(8)
    by (simp add: manage_job_after_lookup[OF that assms(4-7)] c Let_def)
  have "main env B a st =
           (Return (),
            st\<lparr>calls := calls st @ [JobsConfigure, JobsList, JobsCreate (config a)],
               out := out st @ MConfiguring # configure_msgs B @
                 [MRule, MTitle, MRule, MLoaded (config a), MManaging (JStr n), MNotExists,
                  MCreating, MCreatedNoId, MRuleAfterBlank, MCompleted, MRule]\<rparr>)"
    using assms(3)
    by (simp add: main_after_configure[OF assms(1,2)] m u when_url_def prog_defs)
  with c u m[OF assms(3)] show ?thesis by simp
qed

theorem unparseable_create_output_witness:
  "main [''DATABRICKS_HOST'' \<mapsto> ''https://adb.example.net'', ''DATABRICKS_TOKEN'' \<mapsto> ''t0ken'']
     (demo_bridge (demo_listing []) (ok Garbage) (ok Blank))
     \<lparr>config = ''job.json'', force_update = False, run = True\<rparr> demo_state =
   (Return (),
    demo_state\<lparr>calls := [JobsConfigure, JobsList, JobsCreate ''job.json''],
               out := [MConfiguring, MConfigured, MRule, MTitle, MRule, MLoaded ''job.json'',
                       MManaging (JStr ''ingest-daily''), MNotExists, MCreating, MCreatedNoId,
                       MRuleAfterBlank, MCompleted, MRule]\<rparr>)"
  using unparseable_create_output[of
      "[''DATABRICKS_HOST'' \<mapsto> ''https://adb.example.net'', ''DATABRICKS_TOKEN'' \<mapsto> ''t0ken'']"
      demo_state "\<lparr>config = ''job.json'', force_update = False, run = True\<rparr>"
      "[(''name'', JStr ''ingest-daily'')]" "''ingest-daily''"
      "demo_bridge (demo_listing []) (ok Garbage) (ok Blank)" "[]" demo_state]
  by (simp add: demo_defs listed_jobs_def resolve_def env_truthy_def configure_msgs_def)

end
